theory Spec2Isabelle
  imports Complex_Main
begin

section \<open>Responses\<close>

text \<open>
  Every handler of \<open>app.py\<close> answers through \<open>success_response(data, message, code)\<close> or
  \<open>error_response(message, code)\<close> (\<open>utils/utility.py\<close>). A response is kept as its HTTP
  code, its message and, on success, its data. The handlers' catch-all
  \<open>except Exception as e: return error_response(f'<prefix>: {str(e)}', 500)\<close> is the third
  constructor: it keeps the prefix, the text of the exception being appended to it.
\<close>

datatype 'a response =
    Success nat string 'a
  | Error nat string
  | ServerError string

section \<open>The book catalog and its listing\<close>

text \<open>
  The dict literals of \<open>books_db\<close>, with the keys \<open>id\<close>, \<open>title\<close>, \<open>year\<close>, \<open>genre\<close> and
  \<open>popularity\<close> as fields (prefixed \<open>bk_\<close>); the remaining keys (author, description,
  source, URLs, summary, language, pages, rating, isFavorite) are presentation data that
  the pagination stage and the detail lookup never read.
\<close>

record book =
  bk_id :: int
  bk_title :: string
  bk_year :: int
  bk_genre :: string
  bk_popularity :: int

definition mk_book :: "int \<Rightarrow> string \<Rightarrow> int \<Rightarrow> string \<Rightarrow> int \<Rightarrow> book" where
  "mk_book i t y g p =
     \<lparr>bk_id = i, bk_title = t, bk_year = y, bk_genre = g, bk_popularity = p\<rparr>"

text \<open>\<open>books_db\<close> of \<open>get_books\<close>: twelve entries.\<close>

definition books_db :: "book list" where
  "books_db =
    [mk_book 1 ''Pride and Prejudice'' 1813 ''Romance'' 98,
     mk_book 2 ''The Great Gatsby'' 1925 ''Fiction'' 93,
     mk_book 3 ''Frankenstein'' 1818 ''Horror'' 92,
     mk_book 4 ''1984'' 1949 ''Science Fiction'' 96,
     mk_book 5 ''To Kill a Mockingbird'' 1960 ''Fiction'' 94,
     mk_book 6 ''Wuthering Heights'' 1847 ''Gothic Fiction'' 88,
     mk_book 7 ''Jane Eyre'' 1847 ''Romance'' 91,
     mk_book 8 ''Brave New World'' 1932 ''Science Fiction'' 89,
     mk_book 9 ''Moby Dick'' 1851 ''Adventure'' 87,
     mk_book 10 ''The Catcher in the Rye'' 1951 ''Fiction'' 90,
     mk_book 11 ''The Hobbit'' 1937 ''Fantasy'' 95,
     mk_book 12 ''The Picture of Dorian Gray'' 1890 ''Philosophical Fiction'' 86]"

text \<open>\<open>books_db\<close> of \<open>get_book\<close>: the first three entries only.\<close>

definition detail_books_db :: "book list" where
  "detail_books_db =
    [mk_book 1 ''Pride and Prejudice'' 1813 ''Romance'' 98,
     mk_book 2 ''The Great Gatsby'' 1925 ''Fiction'' 93,
     mk_book 3 ''Frankenstein'' 1818 ''Horror'' 92]"

text \<open>
  Python's \<open>xs[start:end]\<close> for integer bounds: a negative bound counts from the end, and
  both bounds are clamped to the list.
\<close>

definition py_slice :: "'a list \<Rightarrow> int \<Rightarrow> int \<Rightarrow> 'a list" where
  "py_slice xs s e =
     (let n = int (length xs);
          s' = (if s < 0 then max (s + n) 0 else min s n);
          e' = (if e < 0 then max (e + n) 0 else min e n)
      in take (nat (e' - s')) (drop (nat s') xs))"

text \<open>
  The \<open>pagination\<close> dict of a listing response. The count of all matching rows is the
  key \<open>total_books\<close> in \<open>get_books\<close> and \<open>total\<close> in \<open>get_user_podcasts\<close>.
\<close>

record pagination =
  current_page :: int
  per_page :: int
  total :: int
  total_pages :: int
  has_next :: bool
  has_prev :: bool

text \<open>
  The pagination stage of \<open>get_books\<close> (\<open># Apply pagination\<close> to the response), on the
  list \<open>filtered_books\<close> that filtering and sorting leave, for the parsed \<open>page\<close> and
  \<open>per_page\<close>. \<open>//\<close> is floor division, as \<open>div\<close> on \<open>int\<close>; with \<open>per_page = 0\<close> it raises
  ZeroDivisionError, which the handler's \<open>except Exception\<close> turns into a 500.
\<close>

definition get_books_page :: "int \<Rightarrow> int \<Rightarrow> 'a list \<Rightarrow> ('a list \<times> pagination) response" where
  "get_books_page page per_pg filtered_books =
     (let total = int (length filtered_books) in
      if per_pg = 0 then ServerError ''Error fetching books: ''
      else
        let pages = (total + per_pg - 1) div per_pg;
            start_idx = (page - 1) * per_pg;
            end_idx = start_idx + per_pg;
            paginated_books = py_slice filtered_books start_idx end_idx
        in Success 200 ''Books retrieved successfully''
             (paginated_books,
              \<lparr>current_page = page, per_page = per_pg, total = total,
               total_pages = pages, has_next = (page < pages), has_prev = (page > 1)\<rparr>))"

text \<open>
  \<open>get_book(book_id)\<close>: \<open>next((b for b in books_db if b['id'] == book_id), None)\<close> over the
  three-entry list; a found dict is non-empty, hence truthy.
\<close>

definition get_book :: "int \<Rightarrow> book response" where
  "get_book bid =
     (case find (\<lambda>b. bk_id b = bid) detail_books_db of
        None \<Rightarrow> Error 404 ''Book not found''
      | Some b \<Rightarrow> Success 200 ''Book retrieved successfully'' b)"

section \<open>Python values and strings\<close>

text \<open>
  A field of a JSON request body, as \<open>request.get_json()\<close> hands it to a handler. Arrays
  and objects are one constructor: the handlers only ask whether a field is a string or a
  number. Floats are the finite ones, as reals. Strings are sequences of code points
  below 256.
\<close>

datatype json = JNull | JBool bool | JInt int | JFloat real | JStr string | JComposite

text \<open>
  The values that pass \<open>isinstance(v, (int, float))\<close>. In Python \<open>bool\<close> is a subclass
  of \<open>int\<close>, so \<open>True\<close> and \<open>False\<close> pass it, with the values 1 and 0.
\<close>

datatype number = NBool bool | NInt int | NFloat real

definition as_number :: "json \<Rightarrow> number option" where
  "as_number v =
     (case v of JBool b \<Rightarrow> Some (NBool b) | JInt i \<Rightarrow> Some (NInt i)
              | JFloat r \<Rightarrow> Some (NFloat r) | _ \<Rightarrow> None)"

text \<open>\<open>n <= 0\<close> on such a value.\<close>

definition num_le_zero :: "number \<Rightarrow> bool" where
  "num_le_zero n = (case n of NBool b \<Rightarrow> \<not> b | NInt i \<Rightarrow> i \<le> 0 | NFloat r \<Rightarrow> r \<le> 0)"

text \<open>\<open>n * 60\<close> on such a value: a \<open>bool\<close> operand gives an \<open>int\<close>.\<close>

definition times60 :: "number \<Rightarrow> number" where
  "times60 n =
     (case n of NBool b \<Rightarrow> NInt (if b then 60 else 0) | NInt i \<Rightarrow> NInt (i * 60)
              | NFloat r \<Rightarrow> NFloat (r * 60))"

text \<open>Decimal digits of a natural number and \<open>str\<close> of an \<open>int\<close>.\<close>

fun nat_str :: "nat \<Rightarrow> string" where
  "nat_str n = (if n < 10 then [''0123456789'' ! n]
                else nat_str (n div 10) @ [''0123456789'' ! (n mod 10)])"

declare nat_str.simps [simp del]

definition int_str :: "int \<Rightarrow> string" where
  "int_str i = (if i < 0 then CHR ''-'' # nat_str (nat (- i)) else nat_str (nat i))"

text \<open>
  \<open>str\<close> of a number, as an f-string renders it. The shortest-round-trip text of a float is
  Python's own; it is the parameter \<open>float_repr\<close>.
\<close>

definition num_str :: "(real \<Rightarrow> string) \<Rightarrow> number \<Rightarrow> string" where
  "num_str float_repr n =
     (case n of NBool b \<Rightarrow> (if b then ''True'' else ''False'')
              | NInt i \<Rightarrow> int_str i
              | NFloat r \<Rightarrow> float_repr r)"

text \<open>
  \<open>str.isspace\<close> on one character, \<open>str.strip()\<close> and \<open>str.lower()\<close>, for code points
  below 256: the whitespace there is 9 to 13, 28 to 32, 133 and 160.
\<close>

definition py_isspace :: "char \<Rightarrow> bool" where
  "py_isspace c =
     (let n = (of_char c :: nat)
      in (9 \<le> n \<and> n \<le> 13) \<or> (28 \<le> n \<and> n \<le> 32) \<or> n = 133 \<or> n = 160)"

definition py_strip :: "string \<Rightarrow> string" where
  "py_strip s = rev (dropWhile py_isspace (rev (dropWhile py_isspace s)))"

text \<open>
  The upper-case letters below 256 are \<open>A\<close> to \<open>Z\<close> (65 to 90) and 192 to 222 without 215;
  each lower-case letter is 32 above, which is bit 5 of the code point, clear in all of
  them.
\<close>

definition py_lower_char :: "char \<Rightarrow> char" where
  "py_lower_char c =
     (let n = (of_char c :: nat)
      in if (65 \<le> n \<and> n \<le> 90) \<or> (192 \<le> n \<and> n \<le> 222 \<and> n \<noteq> 215)
         then (case c of Char b0 b1 b2 b3 b4 b5 b6 b7 \<Rightarrow> Char b0 b1 b2 b3 b4 True b6 b7)
         else c)"

definition py_lower :: "string \<Rightarrow> string" where
  "py_lower s = map py_lower_char s"

text \<open>\<open>sep.join(xs)\<close>.\<close>

fun py_join :: "string \<Rightarrow> string list \<Rightarrow> string" where
  "py_join sep [] = []"
| "py_join sep [x] = x"
| "py_join sep (x # y # ys) = x @ sep @ py_join sep (y # ys)"

section \<open>Input validation (utils/utility.py) and the checks of register\<close>

text \<open>
  The character classes of the patterns: \<open>[A-Z]\<close>, \<open>[a-z]\<close>, \<open>\d\<close> (the only decimal digits
  below 256 are \<open>0\<close> to \<open>9\<close>) and the special characters of \<open>validate_password\<close>, which
  are \<open>! @ # $ % ^ & * ( ) , . ? " : { } | < >\<close>.
\<close>

definition is_upper :: "char \<Rightarrow> bool" where
  "is_upper c = (65 \<le> (of_char c :: nat) \<and> (of_char c :: nat) \<le> 90)"

definition is_lower :: "char \<Rightarrow> bool" where
  "is_lower c = (97 \<le> (of_char c :: nat) \<and> (of_char c :: nat) \<le> 122)"

definition is_digit :: "char \<Rightarrow> bool" where
  "is_digit c = (48 \<le> (of_char c :: nat) \<and> (of_char c :: nat) \<le> 57)"

definition is_special :: "char \<Rightarrow> bool" where
  "is_special c = (c \<in> set (''!@#$%^&*(),.?'' @ [CHR 0x22] @ '':{}|<>''))"

text \<open>
  \<open>validate_password(password)\<close>, on the value of the request's \<open>password\<close> field. Every
  falsy value and every value that is not a \<open>str\<close> is answered by the first check;
  \<open>re.search\<close> of a one-class pattern succeeds when some character is in the class. Each
  check returns at once.
\<close>

definition validate_password :: "json \<Rightarrow> bool \<times> string" where
  "validate_password password =
     (case password of
        JStr pw \<Rightarrow>
          if pw = [] then (False, ''Password is required'')
          else if length pw < 8 then (False, ''Password must be at least 8 characters long'')
          else if \<not> list_ex is_upper pw
            then (False, ''Password must contain at least one uppercase letter'')
          else if \<not> list_ex is_lower pw
            then (False, ''Password must contain at least one lowercase letter'')
          else if \<not> list_ex is_digit pw
            then (False, ''Password must contain at least one number'')
          else if \<not> list_ex is_special pw
            then (False, ''Password must contain at least one special character'')
          else (True, ''Password is valid'')
      | _ \<Rightarrow> (False, ''Password is required''))"

text \<open>
  \<open>validate_name(name)\<close> on a \<open>str\<close>. The pattern \<open>^[a-zA-Z\s\-\'\.]+$\<close> is matched against
  the stripped name, which is not empty there and cannot end in a newline: it matches
  when every character is in the class.
\<close>

definition name_char :: "char \<Rightarrow> bool" where
  "name_char c = (is_upper c \<or> is_lower c \<or> py_isspace c \<or> c \<in> set ''-.'' \<or> c = CHR 0x27)"

definition validate_name :: "string \<Rightarrow> bool \<times> string" where
  "validate_name nm =
     (if nm = [] then (False, ''Name is required'')
      else let nm' = py_strip nm in
        if length nm' < 2 then (False, ''Name must be at least 2 characters long'')
        else if length nm' > 100 then (False, ''Name must be less than 100 characters'')
        else if \<not> list_all name_char nm'
          then (False, ''Name can only contain letters, spaces, hyphens, apostrophes, and periods'')
        else (True, ''Name is valid''))"

text \<open>
  \<open>validate_email(email)\<close> on a \<open>str\<close>, with the pattern
  \<open>^[a-zA-Z0-9._%+-]+@[a-zA-Z0-9.-]+\.[a-zA-Z]{2,}$\<close>. Neither class has \<open>@\<close>, so the local
  part ends at the first \<open>@\<close>; the last group has no dot, so it starts after the last dot.
\<close>

definition email_local_char :: "char \<Rightarrow> bool" where
  "email_local_char c = (is_upper c \<or> is_lower c \<or> is_digit c \<or> c \<in> set ''._%+-'')"

definition email_domain_char :: "char \<Rightarrow> bool" where
  "email_domain_char c = (is_upper c \<or> is_lower c \<or> is_digit c \<or> c \<in> set ''.-'')"

definition email_pattern :: "string \<Rightarrow> bool" where
  "email_pattern s =
     (let local_part = takeWhile (\<lambda>c. c \<noteq> CHR ''@'') s;
          rest = drop (Suc (length local_part)) s;
          tld = rev (takeWhile (\<lambda>c. c \<noteq> CHR ''.'') (rev rest));
          dom = take (length rest - Suc (length tld)) rest
      in local_part \<noteq> [] \<and> list_all email_local_char local_part
         \<and> length local_part < length s
         \<and> length tld < length rest
         \<and> dom \<noteq> [] \<and> list_all email_domain_char dom
         \<and> 2 \<le> length tld \<and> list_all (\<lambda>c. is_upper c \<or> is_lower c) tld)"

definition validate_email :: "string \<Rightarrow> bool" where
  "validate_email email = (email \<noteq> [] \<and> email_pattern (py_lower (py_strip email)))"

text \<open>
  The body of a registration request: the three fields the handler reads, each absent or
  a JSON value.
\<close>

record register_request =
  rq_name :: "json option"
  rq_email :: "json option"
  rq_password :: "json option"

text \<open>
  \<open>register\<close>, from the start to the password check. A rejected request ends there with
  its response. \<open>.strip()\<close> on a value that is not a \<open>str\<close> raises AttributeError, which
  the handler's \<open>except Exception\<close> answers with a 500. A request that passes goes on, with
  the stripped name, the lower-cased email and the password, to the duplicate-email check
  and the insertion of the user.
\<close>

datatype register_check = Rejected "unit response" | Validated string string json

definition register_checks :: "register_request \<Rightarrow> register_check" where
  "register_checks rq =
     (case (rq_name rq, rq_email rq, rq_password rq) of
        (Some n, Some e, Some password) \<Rightarrow>
          (case (n, e) of
             (JStr n', JStr e') \<Rightarrow>
               let nm = py_strip n'; email = py_lower (py_strip e') in
               if \<not> fst (validate_name nm) then Rejected (Error 400 (snd (validate_name nm)))
               else if \<not> validate_email email
                 then Rejected (Error 400 ''Please provide a valid email address'')
               else if \<not> fst (validate_password password)
                 then Rejected (Error 400 (snd (validate_password password)))
               else Validated nm email password
           | _ \<Rightarrow> Rejected (ServerError ''Error creating user: ''))
      | _ \<Rightarrow> Rejected (Error 400 ''All fields are required''))"

section \<open>The podcast table\<close>

text \<open>
  A row of the \<open>podcasts\<close> table (\<open>class Podcast\<close>, \<open>utils/models.py\<close>), with the columns
  under their own names; the primary key \<open>id\<close> is \<open>podcast_id\<close>. Nullable columns are
  options, timestamps are seconds. The column \<open>updated_at\<close>, which the database refreshes
  by itself on every update, is left out. The table is the list of its rows in insertion
  order.
\<close>

record podcast =
  podcast_id :: int
  user_id :: int
  book_id :: int
  book_title :: string
  book_author :: string
  title :: string
  description :: "string option"
  audio_url :: "string option"
  file_size :: "nat option"
  duration :: string
  format :: string
  script :: "string option"
  language :: string
  tone :: string
  speed :: real
  status :: string
  progress :: int
  error_message :: "string option"
  play_count :: int
  like_count :: int
  download_count :: int
  created_at :: nat
  completed_at :: "nat option"
  tags :: "string option"
  is_public :: bool

text \<open>
  The validators that SQLAlchemy runs when \<open>status\<close> or \<open>progress\<close> is assigned; the text
  of the list follows the message of \<open>validate_status\<close>.
\<close>

definition valid_statuses :: "string list" where
  "valid_statuses = [''pending'', ''processing'', ''completed'', ''failed'', ''cancelled'']"

datatype py_error = ValueError string

definition validate_status :: "string \<Rightarrow> py_error + string" where
  "validate_status st =
     (if st \<notin> set valid_statuses then Inl (ValueError ''Status must be one of: '')
      else Inr st)"

definition validate_progress :: "int \<Rightarrow> py_error + int" where
  "validate_progress pr =
     (if \<not> (0 \<le> pr \<and> pr \<le> 100) then Inl (ValueError ''Progress must be between 0 and 100'')
      else Inr pr)"

text \<open>
  The database is the one \<open>app.py\<close> configures by default, SQLite (\<open>sqlite:///educast.db\<close>).
  \<open>Podcast.query.filter_by(...).first()\<close> is \<open>find\<close> on the table; \<open>db.session.commit()\<close>
  after changes to a loaded row writes the row back under its primary key;
  \<open>db.session.delete(row)\<close> removes it. A new row gets the next free key, which for SQLite
  is one more than the largest key in the table.
\<close>

definition update_row :: "podcast \<Rightarrow> podcast list \<Rightarrow> podcast list" where
  "update_row p rows = map (\<lambda>q. if podcast_id q = podcast_id p then p else q) rows"

text \<open>
  Where another thread may commit between the load of a row and the commit of the
  assignments to it, the commit is what it is in the database: an \<open>UPDATE\<close> of the assigned
  columns of the row that has the key in the table as it is then, and of no row when the
  key is gone.
\<close>

definition write_row :: "int \<Rightarrow> (podcast \<Rightarrow> podcast) \<Rightarrow> podcast list \<Rightarrow> podcast list" where
  "write_row k u rows = map (\<lambda>q. if podcast_id q = k then u q else q) rows"

text \<open>
  Python's integers are unbounded, the database's are signed 64-bit: the driver binds an
  integer to a statement only in that range and raises OverflowError for any other, before
  the statement runs.
\<close>

definition int64 :: "int \<Rightarrow> bool" where
  "int64 i = (- (2 ^ 63) \<le> i \<and> i < 2 ^ 63)"

definition delete_row :: "podcast \<Rightarrow> podcast list \<Rightarrow> podcast list" where
  "delete_row p rows = filter (\<lambda>q. podcast_id q \<noteq> podcast_id p) rows"

definition next_id :: "podcast list \<Rightarrow> int" where
  "next_id rows = fold max (map podcast_id rows) 0 + 1"

text \<open>\<open>self.tags if self.tags else ""\<close>: \<open>None\<close> and the empty string are falsy.\<close>

definition tags_or_empty :: "string option \<Rightarrow> string option" where
  "tags_or_empty t = (case t of None \<Rightarrow> Some [] | Some x \<Rightarrow> Some x)"

section \<open>Creating a podcast\<close>

text \<open>
  The JSON body of \<open>POST /api/generate-podcast\<close>, an object. The handler itself inspects the
  types of \<open>title\<close>, \<open>author\<close> and \<open>duration\<close>, which are JSON values here; the other keys
  are stored as they come and carry the type of their column, \<open>book_id\<close> being a JSON
  integer of any size. An absent key is \<open>None\<close>.
\<close>

record podcast_request =
  req_book_id :: "int option"
  req_title :: "json option"
  req_author :: "json option"
  req_duration :: "json option"
  req_description :: "string option"
  req_language :: "string option"
  req_tone :: "string option"
  req_speed :: "real option"
  req_tags :: "string option"
  req_is_public :: "bool option"

text \<open>
  What the handler takes from outside the program: the clock (\<open>datetime.utcnow()\<close>), the
  text of a float, and the script that \<open>generate_podcast_script(title, author, duration)\<close>
  returns, which is a template filled with its arguments under random choices.
\<close>

record world =
  now :: nat
  float_repr :: "real \<Rightarrow> string"
  script_for :: "string \<Rightarrow> string \<Rightarrow> number \<Rightarrow> string"

text \<open>
  \<open>duration = data.get('duration', 5)\<close>, then
  \<open>if not isinstance(duration, (int, float)) or duration <= 0: duration = 5\<close>.
\<close>

definition request_duration :: "json option \<Rightarrow> number" where
  "request_duration d =
     (case d of
        None \<Rightarrow> NInt 5
      | Some v \<Rightarrow>
          (case as_number v of
             None \<Rightarrow> NInt 5
           | Some n \<Rightarrow> if num_le_zero n then NInt 5 else n))"

text \<open>\<open>f"{duration} min"\<close>.\<close>

definition duration_label :: "'a world_scheme \<Rightarrow> number \<Rightarrow> string" where
  "duration_label w d = num_str (float_repr w) d @ '' min''"

text \<open>The arguments of the background thread the handler starts.\<close>

record job =
  job_podcast_id :: int
  job_script :: string
  job_duration_minutes :: number

text \<open>
  The result of a handler run: the response, the table after each \<open>db.session.commit()\<close>
  in order, and the thread started, if any. The tables are those of a run during which
  nothing else writes to the database.
\<close>

record create_result =
  response :: "podcast response"
  commits :: "podcast list list"
  started :: "job option"

definition final_table :: "podcast list \<Rightarrow> podcast list list \<Rightarrow> podcast list" where
  "final_table rows cs = last (rows # cs)"

definition reject :: "podcast response \<Rightarrow> create_result" where
  "reject r = \<lparr>response = r, commits = [], started = None\<rparr>"

definition missing_fields :: "podcast_request \<Rightarrow> string list" where
  "missing_fields rq =
     (if req_book_id rq = None then [''book_id''] else [])
     @ (if req_title rq = None then [''title''] else [])
     @ (if req_author rq = None then [''author''] else [])"

text \<open>
  The row that \<open>Podcast(...)\<close> builds in \<open>generate_podcast\<close> for the stripped title and
  author, the duration and the script, under the key the database gives it at the first
  commit. Columns that the call does not name take their defaults.
\<close>

definition new_podcast ::
  "world \<Rightarrow> podcast_request \<Rightarrow> int \<Rightarrow> int \<Rightarrow> string \<Rightarrow> string \<Rightarrow> number \<Rightarrow> string \<Rightarrow> int
     \<Rightarrow> podcast" where
  "new_podcast w rq uid bid ttl author d scr pid =
     \<lparr>podcast_id = pid,
      user_id = uid,
      book_id = bid,
      book_title = ttl,
      book_author = author,
      title = ''EduCast: '' @ ttl,
      description =
        (case req_description rq of
           None \<Rightarrow> Some (''A '' @ num_str (float_repr w) d @ ''-minute podcast about '' @ ttl
                          @ '' by '' @ author)
         | Some x \<Rightarrow> Some x),
      audio_url = None,
      file_size = None,
      duration = duration_label w d,
      format = ''mp3'',
      script = Some scr,
      language = (case req_language rq of None \<Rightarrow> ''English'' | Some x \<Rightarrow> x),
      tone = (case req_tone rq of None \<Rightarrow> ''educational'' | Some x \<Rightarrow> x),
      speed = (case req_speed rq of None \<Rightarrow> 1 | Some x \<Rightarrow> x),
      status = ''pending'',
      progress = 0,
      error_message = None,
      play_count = 0,
      like_count = 0,
      download_count = 0,
      created_at = now w,
      completed_at = None,
      tags = (case req_tags rq of None \<Rightarrow> Some [] | Some x \<Rightarrow> Some x),
      is_public = (case req_is_public rq of None \<Rightarrow> False | Some x \<Rightarrow> x)\<rparr>"

text \<open>
  The assignments between the thread start and the second commit of \<open>generate_podcast\<close>.
\<close>

definition mark_processing :: "podcast \<Rightarrow> podcast" where
  "mark_processing p = p\<lparr>status := ''processing'', progress := 10\<rparr>"

text \<open>
  \<open>generate_podcast\<close>, for the user that the token resolves to (\<open>None\<close> when it resolves to
  none). The success data is the row, which \<open>to_dict()\<close> renders.

  The lookup binds \<open>book_id\<close> as the request has it: outside the signed 64-bit range the
  driver raises, and the catch-all answers 500 with no row written. The user's id and the
  new key come from the database and are in range.

  The handler commits the new row, starts the thread (\<open>thread.start()\<close>), and only then
  assigns \<open>processing\<close> and 10 and commits again: the second commit is
  \<open>write_row\<close> of \<open>mark_processing\<close> under the new key. The thread may commit before it.
\<close>

definition generate_podcast ::
  "world \<Rightarrow> int option \<Rightarrow> podcast_request \<Rightarrow> podcast list \<Rightarrow> create_result" where
  "generate_podcast w usr rq rows =
     (case usr of
        None \<Rightarrow> reject (Error 401 ''Authentication required. Please login.'')
      | Some uid \<Rightarrow>
        if missing_fields rq \<noteq> [] then
          reject (Error 400 (''Missing required fields: '' @ py_join '', '' (missing_fields rq)))
        else
          (case (req_book_id rq, req_title rq, req_author rq) of
             (Some bid, Some (JStr t), Some (JStr a)) \<Rightarrow>
               let ttl = py_strip t; author = py_strip a in
               if ttl = [] then reject (Error 400 ''Book title cannot be empty'')
               else if author = [] then reject (Error 400 ''Author cannot be empty'')
               else if \<not> int64 bid then reject (ServerError ''Error creating podcast: '')
               else
                 (case find (\<lambda>p. user_id p = uid \<and> book_id p = bid) rows of
                    Some existing_podcast \<Rightarrow>
                      reject (Success 200 ''Podcast for this book already exists''
                                existing_podcast)
                  | None \<Rightarrow>
                      let d = request_duration (req_duration rq);
                          scr = script_for w ttl author d;
                          p = new_podcast w rq uid bid ttl author d scr (next_id rows);
                          c1 = rows @ [p];
                          c2 = write_row (podcast_id p) mark_processing c1
                      in \<lparr>response = Success 200 ''Podcast generation started successfully''
                                      (mark_processing p),
                          commits = [c1, c2],
                          started = Some \<lparr>job_podcast_id = podcast_id p, job_script = scr,
                                           job_duration_minutes = d\<rparr>\<rparr>)
           | _ \<Rightarrow> reject (ServerError ''Error creating podcast: '')))"

section \<open>The background worker\<close>

text \<open>
  What \<open>generate_podcast_audio_background\<close> takes from outside the program, besides the
  clock and the text of a float:
  \<^item> \<open>mkdtemp_raises\<close>: whether \<open>tempfile.mkdtemp()\<close> raises;
  \<^item> \<open>tts\<close>: the pair that \<open>generate_audio_with_pyttsx3(script, output_file, tone)\<close>
    returns (it catches every exception itself);
  \<^item> \<open>trim\<close>: the success flag of \<open>limit_audio_duration(output_file, max_duration)\<close>
    (it catches every exception itself), and \<open>output_exists\<close>: \<open>os.path.exists\<close> of the
    output file after it;
  \<^item> \<open>move_raises\<close>: whether \<open>os.makedirs\<close> or \<open>shutil.move\<close> raises;
  \<^item> \<open>final_size\<close>: the size recorded for the moved file, and \<open>stamp\<close>: the formatted
    time in its name.
\<close>

record worker_world = world +
  mkdtemp_raises :: bool
  tts :: "string \<Rightarrow> string \<Rightarrow> bool \<times> string"
  trim :: "number \<Rightarrow> bool"
  output_exists :: bool
  move_raises :: bool
  final_size :: nat
  stamp :: string

text \<open>
  The commits of \<open>generate_podcast_audio_background\<close> for the row \<open>p0\<close> it has loaded, each as
  the assignments it writes, in order.

  An exception inside \<open>with app.app_context()\<close> leaves the block: the context is torn down,
  the session that holds the row is removed and its uncommitted assignments are dropped.
  The \<open>except Exception\<close> block runs after that, outside the application context, where its
  \<open>db.session.commit()\<close> has no such session and raises: of its assignments (\<open>failed\<close>,
  the text of the exception) nothing is written, and the thread ends with the commits it
  made before.
\<close>

definition worker_updates :: "worker_world \<Rightarrow> job \<Rightarrow> podcast \<Rightarrow> (podcast \<Rightarrow> podcast) list" where
  "worker_updates w j p0 =
     (let d = job_duration_minutes j in
      if mkdtemp_raises w then []
      else
        let u1 = (\<lambda>p. p\<lparr>progress := 30,
                        script := Some (job_script j),
                        duration := duration_label w d,
                        tags := tags_or_empty (tags p0)\<rparr>)
        in
        (case tts w (job_script j) (tone p0) of
           (True, message) \<Rightarrow>
             let u2 = (\<lambda>p. p\<lparr>progress := 70\<rparr>);
                 max_duration = times60 d
             in
             if trim w max_duration \<and> output_exists w then
               if move_raises w then [u1, u2]
               else
                 let final_filename =
                       ''podcast_'' @ int_str (podcast_id p0) @ ''_'' @ stamp w @ ''.mp3''
                 in [u1, u2,
                     \<lambda>p. p\<lparr>audio_url := Some (''/static/audio/'' @ final_filename),
                           file_size := Some (final_size w),
                           status := ''completed'',
                           progress := 100,
                           completed_at := Some (now w)\<rparr>]
             else
               [u1, u2,
                \<lambda>p. p\<lparr>status := ''failed'',
                      error_message := Some ''Audio duration limitation failed''\<rparr>]
         | (False, message) \<Rightarrow>
             [u1,
              \<lambda>p. p\<lparr>status := ''failed'',
                    error_message := Some (''Audio generation failed: '' @ message)\<rparr>]))"



section \<open>Reading, deleting, liking and listing podcasts\<close>

text \<open>
  Each handler returns its response and the table it leaves. \<open>jwt_required\<close> answers a
  request without a resolvable user before the handler runs. The key in the URL of
  \<open>get_podcast\<close>, \<open>delete_podcast\<close> and \<open>like_podcast\<close> is taken in the range of the keys of
  the database; for one outside it the lookup cannot bind it and the table stays as it is.
\<close>

definition unauthenticated :: "'a response" where
  "unauthenticated = Error 401 ''Authentication required. Please login.''"

text \<open>
  \<open>get_podcast(podcast_id)\<close>; \<open>play\<close> tells whether the query argument \<open>play\<close> is \<open>true\<close>
  in some letter case, in which case \<open>increment_play_count()\<close> runs and commits.
\<close>

definition get_podcast ::
  "int option \<Rightarrow> int \<Rightarrow> bool \<Rightarrow> podcast list \<Rightarrow> podcast response \<times> podcast list" where
  "get_podcast usr pid play rows =
     (case usr of
        None \<Rightarrow> (unauthenticated, rows)
      | Some uid \<Rightarrow>
          (case find (\<lambda>p. podcast_id p = pid \<and> user_id p = uid) rows of
             None \<Rightarrow> (Error 404 ''Podcast not found'', rows)
           | Some p \<Rightarrow>
               if play then
                 let p' = p\<lparr>play_count := play_count p + 1\<rparr>
                 in (Success 200 ''Podcast retrieved'' p', update_row p' rows)
               else (Success 200 ''Podcast retrieved'' p, rows)))"

text \<open>
  \<open>delete_podcast(podcast_id)\<close>; the removal of the audio file is outside the table. The
  success data is \<open>deleted_id\<close>.
\<close>

definition delete_podcast ::
  "int option \<Rightarrow> int \<Rightarrow> podcast list \<Rightarrow> int response \<times> podcast list" where
  "delete_podcast usr pid rows =
     (case usr of
        None \<Rightarrow> (unauthenticated, rows)
      | Some uid \<Rightarrow>
          (case find (\<lambda>p. podcast_id p = pid \<and> user_id p = uid) rows of
             None \<Rightarrow> (Error 404 ''Podcast not found'', rows)
           | Some p \<Rightarrow> (Success 200 ''Podcast deleted successfully'' pid, delete_row p rows)))"

text \<open>
  \<open>like_podcast(podcast_id)\<close>: the query is \<open>Podcast.query.filter_by(id=podcast_id)\<close>, with
  no condition on \<open>user_id\<close>. The success data is \<open>likes\<close>.
\<close>

definition like_podcast ::
  "int option \<Rightarrow> int \<Rightarrow> podcast list \<Rightarrow> int response \<times> podcast list" where
  "like_podcast usr pid rows =
     (case usr of
        None \<Rightarrow> (unauthenticated, rows)
      | Some uid \<Rightarrow>
          (case find (\<lambda>p. podcast_id p = pid) rows of
             None \<Rightarrow> (Error 404 ''Podcast not found'', rows)
           | Some p \<Rightarrow>
               let p' = p\<lparr>like_count := like_count p + 1\<rparr>
               in (Success 200 ''Podcast liked successfully'' (like_count p'),
                   update_row p' rows)))"

text \<open>
  \<open>.offset(o).limit(l)\<close> on the rows of a query, for SQLite: a negative \<open>OFFSET\<close> counts as 0
  and a negative \<open>LIMIT\<close> is no limit. (A database set through \<open>DATABASE_URL\<close> may refuse
  them; that is not modelled.)
\<close>

definition offset_limit :: "int \<Rightarrow> int \<Rightarrow> 'a list \<Rightarrow> 'a list" where
  "offset_limit ofs lmt xs =
     (let ys = drop (nat ofs) xs in if lmt < 0 then ys else take (nat lmt) ys)"

text \<open>
  \<open>get_user_podcasts\<close>, for the parsed query arguments \<open>status\<close>, \<open>page\<close> and \<open>per_page\<close>
  (\<open>None\<close> when absent). \<open>order_by(created_at.desc())\<close> is a sort on the negated timestamp
  that keeps rows of equal timestamp in table order. The query binds the offset and
  \<open>per_page\<close>: when one of them is outside the signed 64-bit range the driver raises. With
  an effective \<open>per_page\<close> of 0 the page count raises ZeroDivisionError. Either way the
  catch-all answers 500.
\<close>

definition get_user_podcasts ::
  "int option \<Rightarrow> string option \<Rightarrow> int option \<Rightarrow> int option \<Rightarrow> podcast list
     \<Rightarrow> (podcast list \<times> pagination) response" where
  "get_user_podcasts usr status_arg page_arg per_page_arg rows =
     (case usr of
        None \<Rightarrow> unauthenticated
      | Some uid \<Rightarrow>
          let page = (case page_arg of None \<Rightarrow> 1 | Some x \<Rightarrow> x);
              per_pg = min (case per_page_arg of None \<Rightarrow> 10 | Some x \<Rightarrow> x) 50;
              query0 = filter (\<lambda>p. user_id p = uid) rows;
              query = (case status_arg of
                         None \<Rightarrow> query0
                       | Some st \<Rightarrow>
                           if st \<noteq> [] \<and> st \<noteq> ''all''
                           then filter (\<lambda>p. status p = st) query0 else query0);
              tot = int (length query);
              off = (page - 1) * per_pg;
              podcasts = offset_limit off per_pg
                           (sort_key (\<lambda>p. - int (created_at p)) query)
          in if \<not> (int64 off \<and> int64 per_pg) then ServerError ''Error fetching podcasts: ''
             else if per_pg = 0 then ServerError ''Error fetching podcasts: ''
             else Success 200 ''Podcasts retrieved successfully''
                    (podcasts,
                     \<lparr>current_page = page, per_page = per_pg, total = tot,
                      total_pages = (tot + per_pg - 1) div per_pg,
                      has_next = (off + per_pg < tot), has_prev = (page > 1)\<rparr>))"

section \<open>The tables of the program, and notions used in the statements\<close>


text \<open>
  Two tables have the same rows up to the columns that change after the insert: the same
  keys, users and books in the same order.
\<close>

definition same_keys :: "podcast list \<Rightarrow> podcast list \<Rightarrow> bool" where
  "same_keys xs ys =
     (map (\<lambda>q. (podcast_id q, user_id q, book_id q)) xs
      = map (\<lambda>q. (podcast_id q, user_id q, book_id q)) ys)"


text \<open>
  The input constraints of the create operation: the body names the book, and its title
  and author are strings that are not empty after trimming.
\<close>

definition well_formed_request :: "podcast_request \<Rightarrow> int \<Rightarrow> bool" where
  "well_formed_request rq bid =
     (req_book_id rq = Some bid
      \<and> (case req_title rq of Some (JStr t) \<Rightarrow> py_strip t \<noteq> [] | _ \<Rightarrow> False)
      \<and> (case req_author rq of Some (JStr a) \<Rightarrow> py_strip a \<noteq> [] | _ \<Rightarrow> False))"

text \<open>
  The strength rules of a password in the order \<open>validate_password\<close> checks them, each with
  the message of its failure, and the message of the first rule a password fails.
\<close>

definition password_rules :: "((string \<Rightarrow> bool) \<times> string) list" where
  "password_rules =
     [(\<lambda>pw. pw \<noteq> [], ''Password is required''),
      (\<lambda>pw. 8 \<le> length pw, ''Password must be at least 8 characters long''),
      (list_ex is_upper, ''Password must contain at least one uppercase letter''),
      (list_ex is_lower, ''Password must contain at least one lowercase letter''),
      (list_ex is_digit, ''Password must contain at least one number''),
      (list_ex is_special, ''Password must contain at least one special character'')]"

definition first_failed_rule :: "string \<Rightarrow> string option" where
  "first_failed_rule pw = map_option snd (find (\<lambda>r. \<not> fst r pw) password_rules)"

text \<open>The data of a successful response.\<close>

definition response_data :: "'a response \<Rightarrow> 'a option" where
  "response_data r = (case r of Success c m x \<Rightarrow> Some x | _ \<Rightarrow> None)"

text \<open>The records a listing response carries: none when it is an error.\<close>

definition listed :: "('a list \<times> pagination) response \<Rightarrow> 'a list" where
  "listed r = (case r of Success c m x \<Rightarrow> fst x | _ \<Rightarrow> [])"

text \<open>
  Concrete inputs: a clock at 1700000000, a request for book 7 with a duration of 3 (no
  float occurs in it, so any \<open>float_repr\<close> does), the table after user 1 has created that
  podcast, the job started for it with a world in which every step of the worker
  succeeds, and a table of \<open>n\<close> podcasts of user 1 with the keys and books 1 to \<open>n\<close>.
\<close>

definition a_world :: world where
  "a_world = \<lparr>now = 1700000000, float_repr = (\<lambda>r. ''2.5''),
              script_for = (\<lambda>t a d. ''HOST: Welcome to '' @ t)\<rparr>"

definition a_request :: podcast_request where
  "a_request =
     \<lparr>req_book_id = Some 7, req_title = Some (JStr ''Jane Eyre''),
      req_author = Some (JStr ''Charlotte Bronte''), req_duration = Some (JInt 3),
      req_description = None, req_language = None, req_tone = None, req_speed = None,
      req_tags = None, req_is_public = None\<rparr>"

definition a_table :: "podcast list" where
  "a_table = final_table [] (commits (generate_podcast a_world (Some 1) a_request []))"



definition table_of :: "nat \<Rightarrow> podcast list" where
  "table_of n = map (\<lambda>i. (hd a_table)\<lparr>podcast_id := int i, book_id := int i\<rparr>) [1..<Suc n]"

section \<open>Properties of the book listing and the book detail\<close>

lemma ceil_div_neg:
  fixes n p :: int
  assumes "0 < p"
  shows "(n + p - 1) div p = - (- n div p)"
proof (cases "n mod p = 0")
  case True
  define q where "q = n div p"
  have n: "n = p * q" using mult_div_mod_eq [of p n] True by (simp add: q_def)
  have a: "(n + p - 1) div p = q"
    by (rule int_div_pos_eq [where r = "p - 1"]) (use assms n in auto)
  have b: "- n div p = - q"
    by (rule int_div_pos_eq [where r = 0]) (use assms n in auto)
  show ?thesis by (simp add: a b)
next
  case False
  define q where "q = n div p"
  define r where "r = n mod p"
  have n: "n = p * q + r" by (simp add: q_def r_def)
  have "0 \<le> n mod p" "n mod p < p" using assms by simp_all
  then have r: "0 < r" "r < p" using False
    by (auto simp: r_def)
  have a: "(n + p - 1) div p = q + 1"
    by (rule int_div_pos_eq [where r = "r - 1"]) (use r n in \<open>auto simp: algebra_simps\<close>)
  have b: "- n div p = - (q + 1)"
    by (rule int_div_pos_eq [where r = "p - r"]) (use r n in \<open>auto simp: algebra_simps\<close>)
  show ?thesis by (simp add: a b)
qed

lemma total_pages_ceiling:
  fixes n p :: int
  assumes "0 < p"
  shows "(n + p - 1) div p = \<lceil>real_of_int n / real_of_int p\<rceil>"
  by (simp add: ceiling_divide_eq_div ceil_div_neg [OF assms])

lemma py_slice_nonneg:
  "0 \<le> s \<Longrightarrow> 0 \<le> k \<Longrightarrow> py_slice xs s (s + k) = take (nat k) (drop (nat s) xs)"
  by (auto simp: py_slice_def Let_def min_def max_def)

text \<open>
  C3, as the claim states it: page 2 with 5 per page over the twelve-entry catalog would
  have \<open>has_next = false\<close>. The handler computes \<open>has_next = page < total_pages\<close>, that is
  \<open>2 < 3\<close>: the response carries \<open>has_next = True\<close>.
\<close>

theorem get_books_page2_of_catalog_has_next:
  "get_books_page 2 5 books_db =
     Success 200 ''Books retrieved successfully''
       (take 5 (drop 5 books_db),
        \<lparr>current_page = 2, per_page = 5, total = 12, total_pages = 3,
         has_next = True, has_prev = True\<rparr>)"
  by (simp add: get_books_page_def py_slice_def books_db_def Let_def)

text \<open>
  C3, amended: page 2 with 5 per page over any filtered list of exactly 12 books returns
  exactly 5 items (those at indices 5 to 9), with \<open>has_prev\<close> true, a total page count
  of 3, and \<open>has_next\<close> true, since page 3 holds the last two books.
\<close>

theorem get_books_page2_of_12:
  assumes "length books = 12"
  shows "get_books_page 2 5 books =
           Success 200 ''Books retrieved successfully''
             (take 5 (drop 5 books),
              \<lparr>current_page = 2, per_page = 5, total = 12, total_pages = 3,
               has_next = True, has_prev = True\<rparr>)
         \<and> length (take 5 (drop 5 books)) = 5"
  using assms by (simp add: get_books_page_def py_slice_def Let_def)

theorem get_books_page2_of_12_witness:
  "length books_db = 12
   \<and> get_books_page 2 5 books_db =
           Success 200 ''Books retrieved successfully''
             (take 5 (drop 5 books_db),
              \<lparr>current_page = 2, per_page = 5, total = 12, total_pages = 3,
               has_next = True, has_prev = True\<rparr>)
   \<and> length (take 5 (drop 5 books_db)) = 5"
proof -
  have len: "length books_db = 12" by (simp add: books_db_def)
  show ?thesis using len get_books_page2_of_12 [OF len] by simp
qed

text \<open>
  C7: for \<open>page \<ge> 1\<close>, \<open>per_page \<ge> 1\<close> and a filtered list of \<open>n\<close> books, the listing
  succeeds; \<open>total_pages\<close> is the ceiling of \<open>n / per_page\<close>; the items are the slice that
  starts at index \<open>(page - 1) * per_page\<close> and has at most \<open>per_page\<close> elements; \<open>has_prev\<close>
  is \<open>page > 1\<close> and \<open>has_next\<close> is \<open>page < total_pages\<close>.
\<close>

theorem get_books_page_semantics:
  assumes "1 \<le> page" "1 \<le> per_pg"
  shows "\<exists>items pg.
           get_books_page page per_pg books =
             Success 200 ''Books retrieved successfully'' (items, pg)
         \<and> total_pages pg = \<lceil>real (length books) / real_of_int per_pg\<rceil>
         \<and> items = take (nat per_pg) (drop (nat ((page - 1) * per_pg)) books)
         \<and> int (length items) \<le> per_pg
         \<and> has_prev pg = (page > 1)
         \<and> has_next pg = (page < total_pages pg)"
proof -
  have p: "0 < per_pg" using assms by simp
  have s: "0 \<le> (page - 1) * per_pg" using assms by simp
  have sl: "py_slice books ((page - 1) * per_pg) ((page - 1) * per_pg + per_pg)
              = take (nat per_pg) (drop (nat ((page - 1) * per_pg)) books)"
    using py_slice_nonneg [OF s, of per_pg books] p by simp
  have tp: "(int (length books) + per_pg - 1) div per_pg
              = \<lceil>real (length books) / real_of_int per_pg\<rceil>"
    using total_pages_ceiling [OF p, of "int (length books)"] by simp
  show ?thesis
    using p assms by (simp add: get_books_page_def Let_def sl tp)
qed

theorem get_books_page_semantics_witness:
  "(1::int) \<le> 3 \<and> (1::int) \<le> 5
   \<and> (\<exists>items pg.
           get_books_page 3 5 books_db =
             Success 200 ''Books retrieved successfully'' (items, pg)
         \<and> total_pages pg = \<lceil>real (length books_db) / real_of_int 5\<rceil>
         \<and> items = take (nat 5) (drop (nat ((3 - 1) * 5)) books_db)
         \<and> int (length items) \<le> 5
         \<and> has_prev pg = ((3::int) > 1)
         \<and> has_next pg = (3 < total_pages pg))"
proof -
  have a: "(1::int) \<le> 3" and b: "(1::int) \<le> 5" by simp_all
  show ?thesis using get_books_page_semantics [OF a b, of books_db] by simp
qed

text \<open>
  C9: the detail endpoint knows the books 1, 2 and 3 only. Every id from 4 to 12 is an id
  of the listing's catalog, and the detail endpoint answers it with 404 \<open>Book not found\<close>.
\<close>

theorem get_book_unknown_4_to_12:
  assumes "4 \<le> bid" "bid \<le> 12"
  shows "get_book bid = Error 404 ''Book not found''
         \<and> bid \<in> set (map bk_id books_db)
         \<and> set (map bk_id detail_books_db) = {1, 2, 3}"
proof -
  have "bid \<in> {4, 5, 6, 7, 8, 9, 10, 11, 12}" using assms by auto
  then have m: "bid \<in> set (map bk_id books_db)"
    by (auto simp: books_db_def mk_book_def)
  have g: "get_book bid = Error 404 ''Book not found''"
    using assms by (simp add: get_book_def detail_books_db_def mk_book_def)
  have d: "set (map bk_id detail_books_db) = {1, 2, 3}"
    by (simp add: detail_books_db_def mk_book_def)
  show ?thesis using m g d by simp
qed

theorem get_book_unknown_4_to_12_witness:
  "(4::int) \<le> 7 \<and> (7::int) \<le> 12
   \<and> get_book 7 = Error 404 ''Book not found''
   \<and> 7 \<in> set (map bk_id books_db)
   \<and> set (map bk_id detail_books_db) = {1, 2, 3}"
proof -
  have a: "(4::int) \<le> 7" and b: "(7::int) \<le> 12" by simp_all
  show ?thesis using get_book_unknown_4_to_12 [OF a b] by simp
qed

section \<open>Properties of the create operation\<close>

lemma new_podcast_fields:
  "podcast_id (new_podcast w rq uid bid ttl author d scr pid) = pid"
  "user_id (new_podcast w rq uid bid ttl author d scr pid) = uid"
  "book_id (new_podcast w rq uid bid ttl author d scr pid) = bid"
  "status (new_podcast w rq uid bid ttl author d scr pid) = ''pending''"
  "progress (new_podcast w rq uid bid ttl author d scr pid) = 0"
  "duration (new_podcast w rq uid bid ttl author d scr pid) = duration_label w d"
  "script (new_podcast w rq uid bid ttl author d scr pid) = Some scr"
  "book_title (new_podcast w rq uid bid ttl author d scr pid) = ttl"
  "book_author (new_podcast w rq uid bid ttl author d scr pid) = author"
  by (simp_all add: new_podcast_def)

lemma mark_processing_fields:
  "podcast_id (mark_processing p) = podcast_id p"
  "user_id (mark_processing p) = user_id p"
  "book_id (mark_processing p) = book_id p"
  "status (mark_processing p) = ''processing''"
  "progress (mark_processing p) = 10"
  "duration (mark_processing p) = duration p"
  "script (mark_processing p) = script p"
  "book_title (mark_processing p) = book_title p"
  "book_author (mark_processing p) = book_author p"
  by (simp_all add: mark_processing_def)

lemma fold_max_ge_init: "(a::int) \<le> fold max xs a"
proof (induction xs arbitrary: a)
  case Nil
  show ?case by simp
next
  case (Cons y ys)
  have "a \<le> max y a" by simp
  also have "\<dots> \<le> fold max ys (max y a)" by (rule Cons.IH)
  finally show ?case by simp
qed

lemma fold_max_ge_elem: "x \<in> set xs \<Longrightarrow> (x::int) \<le> fold max xs a"
proof (induction xs arbitrary: a)
  case Nil
  then show ?case by simp
next
  case (Cons y ys)
  show ?case
  proof (cases "x = y")
    case True
    have "y \<le> max y a" by simp
    also have "\<dots> \<le> fold max ys (max y a)" by (rule fold_max_ge_init)
    finally show ?thesis using True by simp
  next
    case False
    then have "x \<in> set ys" using Cons.prems by simp
    then show ?thesis using Cons.IH by simp
  qed
qed

lemma next_id_fresh: "q \<in> set rows \<Longrightarrow> podcast_id q < next_id rows"
  using fold_max_ge_elem [of "podcast_id q" "map podcast_id rows" 0]
  by (simp add: next_id_def)

lemma update_row_last:
  assumes "\<forall>q\<in>set rows. podcast_id q \<noteq> podcast_id p" "podcast_id p' = podcast_id p"
  shows "update_row p' (rows @ [p]) = rows @ [p']"
  using assms by (simp add: update_row_def map_idI)


text \<open>A write under a key that only the last row has changes the last row.\<close>

lemma write_row_last:
  assumes "\<forall>q\<in>set rows. podcast_id q \<noteq> k" "podcast_id p = k"
  shows "write_row k u (rows @ [p]) = rows @ [u p]"
  using assms by (simp add: write_row_def map_idI)


lemma write_row_same_keys:
  assumes "\<And>q. podcast_id (u q) = podcast_id q \<and> user_id (u q) = user_id q \<and> book_id (u q) = book_id q"
  shows "same_keys (write_row k u rows) rows"
  using assms by (simp add: same_keys_def write_row_def)

lemma second_commit_of_new_row:
  assumes "podcast_id p = next_id rows"
  shows "write_row (podcast_id p) mark_processing (rows @ [p]) = rows @ [mark_processing p]"
proof (rule write_row_last)
  show "\<forall>q\<in>set rows. podcast_id q \<noteq> podcast_id p"
  proof
    fix q assume "q \<in> set rows"
    then have "podcast_id q < next_id rows" by (rule next_id_fresh)
    then show "podcast_id q \<noteq> podcast_id p" using assms by simp
  qed
qed simp

lemma second_commit_of_new_podcast:
  "write_row (next_id rows) mark_processing
     (rows @ [new_podcast w rq uid bid ttl author d scr (next_id rows)])
   = rows @ [mark_processing (new_podcast w rq uid bid ttl author d scr (next_id rows))]"
  using second_commit_of_new_row [of "new_podcast w rq uid bid ttl author d scr (next_id rows)" rows]
  by (simp add: new_podcast_fields)





text \<open>
  The handler on a request that passes its checks, and on one that does not: the latter
  commits nothing, starts no thread and answers with no success.
\<close>

lemma create_well_formed:
  assumes "well_formed_request rq bid" "int64 bid"
  shows "generate_podcast w (Some uid) rq rows =
     (let ttl = py_strip (case req_title rq of Some (JStr t) \<Rightarrow> t | _ \<Rightarrow> []);
          author = py_strip (case req_author rq of Some (JStr a) \<Rightarrow> a | _ \<Rightarrow> [])
      in case find (\<lambda>p. user_id p = uid \<and> book_id p = bid) rows of
           Some existing_podcast \<Rightarrow>
             \<lparr>response = Success 200 ''Podcast for this book already exists'' existing_podcast,
              commits = [], started = None\<rparr>
         | None \<Rightarrow>
             let d = request_duration (req_duration rq);
                 scr = script_for w ttl author d;
                 p = new_podcast w rq uid bid ttl author d scr (next_id rows)
             in \<lparr>response = Success 200 ''Podcast generation started successfully''
                             (mark_processing p),
                 commits = [rows @ [p], rows @ [mark_processing p]],
                 started = Some \<lparr>job_podcast_id = podcast_id p, job_script = scr,
                                  job_duration_minutes = d\<rparr>\<rparr>)"
  using assms
  by (simp add: generate_podcast_def well_formed_request_def missing_fields_def reject_def Let_def
                second_commit_of_new_podcast new_podcast_fields
           split: option.splits json.splits)


lemma create_book_id_out_of_range:
  assumes "well_formed_request rq bid" "\<not> int64 bid"
  shows "generate_podcast w (Some uid) rq rows =
           \<lparr>response = ServerError ''Error creating podcast: '', commits = [], started = None\<rparr>"
  using assms
  by (auto simp: generate_podcast_def well_formed_request_def missing_fields_def reject_def Let_def
           split: option.splits json.splits)

lemmas create_defs = generate_podcast_def reject_def missing_fields_def request_duration_def
  as_number_def num_le_zero_def duration_label_def num_str_def int_str_def next_id_def
  final_table_def py_strip_def py_isspace_def new_podcast_def Let_def
  int64_def write_row_def mark_processing_def





section \<open>Properties of the status field\<close>

text \<open>
  The handlers assign only these constants to \<open>status\<close> and \<open>progress\<close>; each passes its
  validator unchanged, so no assignment raises.
\<close>

lemma assigned_values_pass:
  "list_all (\<lambda>s. validate_status s = Inr s) [''pending'', ''processing'', ''completed'', ''failed'']"
  "list_all (\<lambda>n. validate_progress n = Inr n) [0, 10, 30, 70, 100]"
  by (simp_all add: validate_status_def valid_statuses_def validate_progress_def)

text \<open>
  A commit of the worker leaves key, user and book of the row as they are, and leaves the
  status as it is or writes \<open>completed\<close> or \<open>failed\<close>.
\<close>

lemma worker_update_keys:
  assumes "u \<in> set (worker_updates w j p0)"
  shows "podcast_id (u q) = podcast_id q \<and> user_id (u q) = user_id q \<and> book_id (u q) = book_id q"
  using assms
  by (auto simp: worker_updates_def Let_def split: prod.splits bool.splits if_splits)


lemma worker_keeps_keys:
  assumes "u \<in> set (worker_updates w j p0)"
  shows "same_keys (write_row k u rows) rows"
  by (rule write_row_same_keys) (rule worker_update_keys [OF assms])

lemma mark_processing_keeps_keys: "same_keys (write_row k mark_processing rows) rows"
  by (rule write_row_same_keys) (simp add: mark_processing_fields)













section \<open>Ownership of podcasts\<close>

text \<open>
  With distinct primary keys, reading and deleting a podcast of another user is answered
  with 404 \<open>Podcast not found\<close> and leaves the table as it is, also when the read asks for
  a play increment. Liking is not: it finds the row by its key alone.
\<close>

lemma find_distinct_id:
  assumes "distinct (map podcast_id rows)" "p \<in> set rows"
  shows "find (\<lambda>q. podcast_id q = podcast_id p) rows = Some p"
  using assms by (induction rows) (auto simp: image_iff)

lemma find_owner_none:
  assumes d: "distinct (map podcast_id rows)" and p: "p \<in> set rows" and o: "user_id p \<noteq> uid"
  shows "find (\<lambda>q. podcast_id q = podcast_id p \<and> user_id q = uid) rows = None"
proof -
  have "\<And>q. q \<in> set rows \<Longrightarrow> podcast_id q = podcast_id p \<Longrightarrow> q = p"
    using d p by (meson distinct_map inj_onD)
  then show ?thesis using o by (auto simp: find_None_iff)
qed

lemma not_owner_get_delete:
  assumes "distinct (map podcast_id rows)" "p \<in> set rows" "user_id p \<noteq> uid"
  shows "get_podcast (Some uid) (podcast_id p) play rows = (Error 404 ''Podcast not found'', rows)"
    and "delete_podcast (Some uid) (podcast_id p) rows = (Error 404 ''Podcast not found'', rows)"
  using find_owner_none [OF assms]
  by (simp_all add: get_podcast_def delete_podcast_def)

lemma not_owner_like:
  assumes "distinct (map podcast_id rows)" "p \<in> set rows"
  shows "like_podcast (Some uid) (podcast_id p) rows =
           (Success 200 ''Podcast liked successfully'' (like_count p + 1),
            update_row (p\<lparr>like_count := like_count p + 1\<rparr>) rows)"
  using find_distinct_id [OF assms]
  by (simp add: like_podcast_def Let_def)

text \<open>
  C4, at the input where the code departs from it: podcast 1 belongs to user 1, and user 2
  likes it. The claim has a 404 and an unchanged row; the handler answers 200
  \<open>Podcast liked successfully\<close> and the like counter of the row goes from 0 to 1. The read
  (with play increment) and the delete of the same podcast by user 2 are answered with 404.
\<close>

theorem like_podcast_of_another_user:
  "map user_id a_table = [1] \<and> map podcast_id a_table = [1] \<and> map like_count a_table = [0]
   \<and> fst (like_podcast (Some 2) 1 a_table) = Success 200 ''Podcast liked successfully'' 1
   \<and> map like_count (snd (like_podcast (Some 2) 1 a_table)) = [1]
   \<and> get_podcast (Some 2) 1 True a_table = (Error 404 ''Podcast not found'', a_table)
   \<and> delete_podcast (Some 2) 1 a_table = (Error 404 ''Podcast not found'', a_table)"
  by (simp add: a_table_def a_world_def a_request_def create_defs nat_str.simps
                like_podcast_def get_podcast_def delete_podcast_def update_row_def)

section \<open>Properties of the checks of register\<close>

text \<open>
  \<open>email_pattern\<close> holds exactly for the strings the pattern of \<open>validate_email\<close> matches:
  a non-empty local part in its class, \<open>@\<close>, a non-empty domain part in its class, a dot,
  and at least two letters.
\<close>

lemma at_not_local: "email_local_char c \<Longrightarrow> c \<noteq> CHR ''@''"
  by (auto simp: email_local_char_def is_upper_def is_lower_def is_digit_def)

lemma dot_not_alpha: "is_upper c \<or> is_lower c \<Longrightarrow> c \<noteq> CHR ''.''"
  by (auto simp: is_upper_def is_lower_def)

lemma takeWhile_stop:
  assumes "\<forall>x\<in>set xs. P x" "\<not> P y"
  shows "takeWhile P (xs @ y # ys) = xs"
  using assms by (induction xs) auto

lemma split_at_first:
  assumes "length (takeWhile P s) < length s"
  shows "\<exists>y. s = takeWhile P s @ y # drop (Suc (length (takeWhile P s))) s \<and> \<not> P y"
proof -
  have ne: "dropWhile P s \<noteq> []"
    using assms by (metis append_Nil2 less_irrefl takeWhile_dropWhile_id)
  then obtain y ys where d: "dropWhile P s = y # ys" by (cases "dropWhile P s") auto
  have s: "s = takeWhile P s @ y # ys" using d by (metis takeWhile_dropWhile_id)
  have "drop (Suc (length (takeWhile P s))) s = ys"
    by (subst (2) s) simp
  moreover have "\<not> P y" using d by (metis hd_dropWhile list.sel(1) ne)
  ultimately show ?thesis using s by metis
qed

lemma email_pattern_iff:
  "email_pattern s \<longleftrightarrow>
     (\<exists>l d t. s = l @ ''@'' @ d @ ''.'' @ t
        \<and> l \<noteq> [] \<and> list_all email_local_char l
        \<and> d \<noteq> [] \<and> list_all email_domain_char d
        \<and> 2 \<le> length t \<and> list_all (\<lambda>c. is_upper c \<or> is_lower c) t)"
  (is "?L \<longleftrightarrow> ?R")
proof
  assume ?R
  then obtain l d t where s: "s = l @ ''@'' @ d @ ''.'' @ t"
    and l: "l \<noteq> []" "list_all email_local_char l"
    and d: "d \<noteq> []" "list_all email_domain_char d"
    and t: "2 \<le> length t" "list_all (\<lambda>c. is_upper c \<or> is_lower c) t" by blast
  have tl: "takeWhile (\<lambda>c. c \<noteq> CHR ''@'') s = l"
    unfolding s using l(2) at_not_local
    by (simp add: takeWhile_stop list_all_iff)
  have rest: "drop (Suc (length l)) s = d @ ''.'' @ t" by (simp add: s)
  have tt: "takeWhile (\<lambda>c. c \<noteq> CHR ''.'') (rev (d @ ''.'' @ t)) = rev t"
    using t(2) dot_not_alpha by (simp add: takeWhile_stop list_all_iff)
  have len: "length l < length s" by (simp add: s)
  show ?L
    unfolding email_pattern_def Let_def tl rest tt
    using l d t len by simp
next
  assume L: ?L
  define l where "l = takeWhile (\<lambda>c. c \<noteq> CHR ''@'') s"
  define rest where "rest = drop (Suc (length l)) s"
  define rt where "rt = takeWhile (\<lambda>c. c \<noteq> CHR ''.'') (rev rest)"
  define t where "t = rev rt"
  define d where "d = take (length rest - Suc (length t)) rest"
  have U: "l \<noteq> [] \<and> list_all email_local_char l \<and> length l < length s
        \<and> length t < length rest \<and> d \<noteq> [] \<and> list_all email_domain_char d
        \<and> 2 \<le> length t \<and> list_all (\<lambda>c. is_upper c \<or> is_lower c) t"
    using L unfolding email_pattern_def Let_def l_def rest_def rt_def t_def d_def
    by assumption
  have f: "l \<noteq> []" "list_all email_local_char l" "length l < length s"
      "length t < length rest" "d \<noteq> []" "list_all email_domain_char d"
      "2 \<le> length t" "list_all (\<lambda>c. is_upper c \<or> is_lower c) t"
    using U by blast+
  obtain y where "s = l @ y # rest" "\<not> y \<noteq> CHR ''@''"
    using split_at_first [of "\<lambda>c. c \<noteq> CHR ''@''" s] f(3)
    unfolding l_def rest_def by blast
  then have s1: "s = l @ CHR ''@'' # rest" by simp
  have lr: "length rt < length (rev rest)" using f(4) by (simp add: t_def)
  obtain z where "rev rest = rt @ z # drop (Suc (length rt)) (rev rest)" "\<not> z \<noteq> CHR ''.''"
    using split_at_first [of "\<lambda>c. c \<noteq> CHR ''.''" "rev rest"] lr
    unfolding rt_def by blast
  then have r1: "rev rest = rt @ CHR ''.'' # drop (Suc (length rt)) (rev rest)" by simp
  have "rest = rev (rev rest)" by simp
  also have "\<dots> = rev (drop (Suc (length rt)) (rev rest)) @ ''.'' @ t"
    by (subst r1) (simp add: t_def)
  finally have r2: "rest = rev (drop (Suc (length rt)) (rev rest)) @ ''.'' @ t" .
  have "d = rev (drop (Suc (length rt)) (rev rest))"
    unfolding d_def by (subst (2) r2) (simp add: t_def)
  then have "rest = d @ ''.'' @ t" using r2 by simp
  then have "s = l @ ''@'' @ d @ ''.'' @ t" using s1 by simp
  then show ?R using f by blast
qed

lemmas validation_defs = validate_password_def validate_name_def validate_email_def
  email_pattern_def email_local_char_def email_domain_char_def name_char_def is_upper_def
  is_lower_def is_digit_def is_special_def py_strip_def py_lower_def py_lower_char_def
  py_isspace_def register_checks_def Let_def

text \<open>
  C6, as the claim states it: for the password \<open>abc\<close> the message would enumerate the
  missing length, uppercase letter, digit and special character. \<open>validate_password\<close>
  returns at its first failed check: the message names the length alone.
\<close>

theorem register_weak_password_abc:
  "register_checks \<lparr>rq_name = Some (JStr ''Alice''), rq_email = Some (JStr ''alice@example.com''),
                     rq_password = Some (JStr ''abc'')\<rparr>
     = Rejected (Error 400 ''Password must be at least 8 characters long'')"
  by (simp add: validation_defs)

lemma validate_password_first_failed:
  "validate_password (JStr pw) =
     (case first_failed_rule pw of None \<Rightarrow> (True, ''Password is valid'') | Some m \<Rightarrow> (False, m))"
  by (simp add: validate_password_def first_failed_rule_def password_rules_def)

text \<open>
  C6, amended: for every registration request whose name and email pass their checks and
  whose password is a string that fails the strength rules, the register operation
  returns a 400 validation error whose message is that of the first failed rule, in the
  order: not empty, length, uppercase, lowercase, digit, special character.
\<close>

theorem register_reports_first_failed_rule:
  assumes "rq_name rq = Some (JStr n)" "rq_email rq = Some (JStr e)"
      and "rq_password rq = Some (JStr pw)"
      and "fst (validate_name (py_strip n))" "validate_email (py_lower (py_strip e))"
      and "first_failed_rule pw = Some m"
  shows "register_checks rq = Rejected (Error 400 m)
         \<and> validate_password (JStr pw) = (False, m)"
  using assms by (simp add: register_checks_def Let_def validate_password_first_failed)

theorem register_reports_first_failed_rule_witness:
  "fst (validate_name (py_strip ''Alice'')) \<and> validate_email (py_lower (py_strip ''alice@example.com''))
   \<and> first_failed_rule ''abcdefgh'' = Some ''Password must contain at least one uppercase letter''
   \<and> register_checks \<lparr>rq_name = Some (JStr ''Alice''), rq_email = Some (JStr ''alice@example.com''),
                       rq_password = Some (JStr ''abcdefgh'')\<rparr>
       = Rejected (Error 400 ''Password must contain at least one uppercase letter'')
   \<and> validate_password (JStr ''abcdefgh'')
       = (False, ''Password must contain at least one uppercase letter'')"
proof -
  let ?rq = "\<lparr>rq_name = Some (JStr ''Alice''), rq_email = Some (JStr ''alice@example.com''),
                       rq_password = Some (JStr ''abcdefgh'')\<rparr>"
  have a: "rq_name ?rq = Some (JStr ''Alice'')" and b: "rq_email ?rq = Some (JStr ''alice@example.com'')"
    and c: "rq_password ?rq = Some (JStr ''abcdefgh'')" by simp_all
  have d: "fst (validate_name (py_strip ''Alice''))" by (simp add: validation_defs)
  have e: "validate_email (py_lower (py_strip ''alice@example.com''))" by (simp add: validation_defs)
  have f: "first_failed_rule ''abcdefgh'' = Some ''Password must contain at least one uppercase letter''"
    by (simp add: first_failed_rule_def password_rules_def is_upper_def)
  show ?thesis using d e f register_reports_first_failed_rule [OF a b c d e f] by simp
qed

section \<open>Properties of the duration of a created podcast\<close>

text \<open>
  The duration is the request's value when that is a JSON number above zero, and 5 when
  the key is absent or its value is a string, null, an array, an object or a number that
  is not above zero. For a well-formed request with a \<open>book_id\<close> in the signed 64-bit
  range and without an existing podcast, that duration is the one in the script, in the
  stored label and in the job of the worker. A title or
  author that is empty after trimming is rejected with 400, without a commit.
\<close>

lemma request_duration_cases:
  "request_duration None = NInt 5"
  "request_duration (Some (JInt n)) = (if 0 < n then NInt n else NInt 5)"
  "request_duration (Some (JFloat r)) = (if 0 < r then NFloat r else NInt 5)"
  "request_duration (Some (JBool b)) = (if b then NBool True else NInt 5)"
  "request_duration (Some (JStr s)) = NInt 5"
  "request_duration (Some JNull) = NInt 5"
  "request_duration (Some JComposite) = NInt 5"
  by (auto simp: request_duration_def as_number_def num_le_zero_def)

lemma created_duration_flow:
  assumes wf: "well_formed_request rq bid" and bid: "int64 bid"
      and nf: "find (\<lambda>p. user_id p = uid \<and> book_id p = bid) rows = None"
  shows "\<exists>p scr. commits (generate_podcast w (Some uid) rq rows) =
                   [rows @ [p], rows @ [mark_processing p]]
           \<and> duration p = duration_label w (request_duration (req_duration rq))
           \<and> script p = Some scr
           \<and> scr = script_for w (book_title p) (book_author p) (request_duration (req_duration rq))
           \<and> started (generate_podcast w (Some uid) rq rows) =
               Some \<lparr>job_podcast_id = podcast_id p, job_script = scr,
                     job_duration_minutes = request_duration (req_duration rq)\<rparr>"
  using nf by (simp add: create_well_formed [OF wf bid] Let_def new_podcast_fields)

lemma create_blank_title_or_author:
  assumes "req_book_id rq = Some bid" "req_title rq = Some (JStr t)" "req_author rq = Some (JStr a)"
      and "py_strip t = [] \<or> py_strip a = []"
  shows "generate_podcast w (Some uid) rq rows =
           \<lparr>response = Error 400 (if py_strip t = [] then ''Book title cannot be empty''
                                   else ''Author cannot be empty''),
            commits = [], started = None\<rparr>"
  using assms by (auto simp: generate_podcast_def missing_fields_def reject_def Let_def)

text \<open>
  C8, at the input where the code departs from it: the request carries
  \<open>"duration": true\<close>, which is not a JSON number. The claim has the default of 5; the
  handler keeps \<open>True\<close>, because \<open>isinstance(True, (int, float))\<close> holds in Python: the
  stored label is \<open>True min\<close>, the worker gets \<open>True\<close> as its minutes and caps the audio at
  \<open>True * 60 = 60\<close> seconds.
\<close>

theorem generate_podcast_duration_true:
  "map duration (final_table [] (commits (generate_podcast a_world (Some 1)
          (a_request\<lparr>req_duration := Some (JBool True)\<rparr>) []))) = [''True min'']
   \<and> started (generate_podcast a_world (Some 1)
          (a_request\<lparr>req_duration := Some (JBool True)\<rparr>) [])
       = Some \<lparr>job_podcast_id = 1, job_script = ''HOST: Welcome to Jane Eyre'',
               job_duration_minutes = NBool True\<rparr>
   \<and> times60 (NBool True) = NInt 60"
  by (simp add: a_world_def a_request_def create_defs nat_str.simps times60_def)

section \<open>Properties of the podcast listing\<close>

lemma length_offset_limit:
  "0 \<le> lmt \<Longrightarrow> int (length (offset_limit ofs lmt xs)) \<le> lmt"
  by (simp add: offset_limit_def Let_def)

lemma a_table_row: "a_table = [hd a_table]" "user_id (hd a_table) = 1"
  by (simp_all add: a_table_def a_world_def a_request_def create_defs nat_str.simps)

lemma user_id_table_of: "filter (\<lambda>p. user_id p = 1) (table_of n) = table_of n"
  by (simp add: table_of_def a_table_row(2) filter_map o_def)

text \<open>
  What the clamp \<open>min(per_page, 50)\<close> gives: a successful response reports the minimum of
  the requested value (10 when absent) and 50 as its \<open>per_page\<close>, and when that minimum is
  not negative a response carries at most that many, so at most 50, records. User 1 with
  51 podcasts who asks for 100 per page gets 50. A page so far out that the offset leaves
  the signed 64-bit range is answered with 500.
\<close>

lemma get_user_podcasts_reports_per_page:
  assumes "get_user_podcasts usr st pg pp rows = Success c m (ps, pgn)"
  shows "per_page pgn = min (case pp of None \<Rightarrow> 10 | Some x \<Rightarrow> x) 50"
  using assms
  by (auto simp: get_user_podcasts_def unauthenticated_def Let_def split: option.splits if_splits)

lemma get_user_podcasts_at_most:
  assumes nn: "0 \<le> min (case pp of None \<Rightarrow> 10 | Some x \<Rightarrow> x) 50"
  shows "int (length (listed (get_user_podcasts usr st pg pp rows)))
           \<le> min (case pp of None \<Rightarrow> 10 | Some x \<Rightarrow> x) 50"
    and "length (listed (get_user_podcasts usr st pg pp rows)) \<le> 50"
proof -
  define per_pg where "per_pg = min (case pp of None \<Rightarrow> 10 | Some x \<Rightarrow> x) (50::int)"
  have le: "per_pg \<le> 50" by (simp add: per_pg_def)
  have nn': "0 \<le> per_pg" using nn by (simp add: per_pg_def)
  have b: "int (length (listed (get_user_podcasts usr st pg pp rows))) \<le> per_pg"
  proof (cases usr)
    case None
    then show ?thesis using nn'
      by (simp add: get_user_podcasts_def unauthenticated_def listed_def)
  next
    case (Some u)
    have "listed (get_user_podcasts usr st pg pp rows) = []
          \<or> (\<exists>ofs xs. listed (get_user_podcasts usr st pg pp rows) = offset_limit ofs per_pg xs)"
      unfolding Some get_user_podcasts_def Let_def listed_def per_pg_def [symmetric]
      by (cases "\<not> (int64 (((case pg of None \<Rightarrow> 1 | Some x \<Rightarrow> x) - 1) * per_pg) \<and> int64 per_pg)";
          cases "per_pg = 0") auto
    then show ?thesis using nn' length_offset_limit [OF nn'] by auto
  qed
  show "int (length (listed (get_user_podcasts usr st pg pp rows)))
           \<le> min (case pp of None \<Rightarrow> 10 | Some x \<Rightarrow> x) 50"
    using b by (simp add: per_pg_def)
  show "length (listed (get_user_podcasts usr st pg pp rows)) \<le> 50"
    using b le by linarith
qed

lemma get_user_podcasts_clamped_at_50:
  "length (listed (get_user_podcasts (Some 1) None None (Some 100) (table_of 51))) = 50"
  by (simp add: get_user_podcasts_def Let_def listed_def offset_limit_def user_id_table_of
                int64_def)
     (simp add: table_of_def)

lemma get_user_podcasts_offset_out_of_range:
  "get_user_podcasts (Some 1) None (Some (10 ^ 18)) (Some 50) (table_of 51)
     = ServerError ''Error fetching podcasts: ''"
  by (simp add: get_user_podcasts_def Let_def int64_def)

text \<open>
  C10, at the input where the code departs from it: user 1 has 51 podcasts and asks for
  \<open>per_page=-1\<close>. The claim has at most 50 records in a page; \<open>min(-1, 50)\<close> is -1, the query
  runs with \<open>LIMIT -1\<close>, which is no limit, and the response carries all 51 records, with
  a \<open>per_page\<close> of -1, -49 pages and \<open>has_next\<close> set.
\<close>

theorem get_user_podcasts_negative_per_page:
  "length (listed (get_user_podcasts (Some 1) None None (Some (- 1)) (table_of 51))) = 51
   \<and> map_option (\<lambda>x. (per_page (snd x), total_pages (snd x), has_next (snd x)))
        (response_data (get_user_podcasts (Some 1) None None (Some (- 1)) (table_of 51)))
       = Some (- 1, - 49, True)"
  by (simp add: get_user_podcasts_def Let_def listed_def response_data_def offset_limit_def
                user_id_table_of int64_def)
     (simp add: table_of_def)

end
